theory Spec2Isabelle
  imports Complex_Main
begin

section \<open>Python values and field declarations\<close>

text \<open>
  \<^verbatim>\<open>app/models.py\<close> consists of class declarations only: every attribute is an annotated
  name with a \<^verbatim>\<open>Field(...)\<close> descriptor, and construction of a schema class
  (\<^verbatim>\<open>table=False\<close>) validates the keyword arguments against those declarations.
  The declarations are embedded as data, one entry per source line, and construction is
  the function \<open>model_validate\<close> that interprets them. Construction of a table class
  (\<^verbatim>\<open>table=True\<close>) stores the keyword arguments without validating them; it is the
  function \<open>sqlmodel_table_construct\<close>.

  A Python \<^verbatim>\<open>str\<close> is a sequence of code points and \<^verbatim>\<open>max_length\<close> counts code
  points, so a string value is a list of code points. A \<^verbatim>\<open>Decimal\<close> is either finite,
  and then denotes a rational number, or one of \<^verbatim>\<open>Infinity\<close>, \<^verbatim>\<open>-Infinity\<close> and
  \<^verbatim>\<open>NaN\<close>. Python compares a finite decimal with the bounds \<^verbatim>\<open>0.0\<close> and \<^verbatim>\<open>100.0\<close>
  exactly, so a finite decimal is modelled by the rational it denotes.
\<close>

type_synonym str = "nat list"

datatype decimal = Finite rat | Infinity | NegInfinity | NaN

definition str :: "string \<Rightarrow> str" where
  "str s = map of_char s"

datatype pyval =
    PyNone
  | PyBool bool
  | PyInt int
  | PyDecimal decimal
  | PyStr str
  | PyDatetime int
  | PyList "pyval list"

datatype annotation =
    TInt
  | TStr
  | TBool
  | TDecimal
  | TDatetime
  | TList annotation
  | TOptional annotation

datatype default_value = Undefined | Default pyval

text \<open>
  The keyword arguments of \<^verbatim>\<open>Field\<close> that take part in validation. The others used in
  the source (\<^verbatim>\<open>description\<close>, \<^verbatim>\<open>primary_key\<close>, \<^verbatim>\<open>foreign_key\<close>, \<^verbatim>\<open>unique\<close>)
  describe the database column and are not checked at construction.
\<close>

record field_info =
  default :: default_value
  max_length :: "nat option"
  ge :: "rat option"
  le :: "rat option"
  gt :: "rat option"

definition Field :: field_info where
  "Field = \<lparr>default = Undefined, max_length = None, ge = None, le = None, gt = None\<rparr>"

type_synonym field_decl = "string \<times> annotation \<times> field_info"

datatype error_kind =
    Missing
  | WrongType annotation
  | FiniteNumber
  | StringTooLong nat
  | GreaterThanEqual rat
  | LessThanEqual rat
  | GreaterThan rat

type_synonym validation_error = "(string \<times> error_kind) list"

section \<open>Validation at construction\<close>

text \<open>
  Numbers written as strings: an optional minus sign and one or more decimal digits, for
  a \<^verbatim>\<open>Decimal\<close> optionally followed by a point and one or more digits. The value is
  computed exactly, without passing through a float.
\<close>

fun parse_digits :: "nat \<Rightarrow> str \<Rightarrow> nat option" where
  "parse_digits acc [] = Some acc"
| "parse_digits acc (c # cs) =
     (if 48 \<le> c \<and> c \<le> 57 then parse_digits (10 * acc + (c - 48)) cs else None)"

definition parse_nat :: "str \<Rightarrow> nat option" where
  "parse_nat s = (if s = [] then None else parse_digits 0 s)"

definition parse_int :: "str \<Rightarrow> int option" where
  "parse_int s =
     (case s of
        [] \<Rightarrow> None
      | c # cs \<Rightarrow>
          if c = 45 then map_option (\<lambda>n. - int n) (parse_nat cs)
          else map_option int (parse_nat s))"

definition parse_unsigned_decimal :: "str \<Rightarrow> rat option" where
  "parse_unsigned_decimal s =
     (case dropWhile (\<lambda>c. c \<noteq> 46) s of
        [] \<Rightarrow> map_option of_nat (parse_nat s)
      | point # ds \<Rightarrow>
          (case (parse_nat (takeWhile (\<lambda>c. c \<noteq> 46) s), parse_nat ds) of
             (Some i, Some f) \<Rightarrow> Some (of_nat i + of_nat f / 10 ^ length ds)
           | _ \<Rightarrow> None))"

definition parse_decimal :: "str \<Rightarrow> rat option" where
  "parse_decimal s =
     (case s of
        [] \<Rightarrow> None
      | c # cs \<Rightarrow>
          if c = 45 then map_option uminus (parse_unsigned_decimal cs)
          else parse_unsigned_decimal s)"

text \<open>
  Conversion of a given value to the annotated type, as the validation library does it
  by default: a value of the annotated type is taken as it is; an \<^verbatim>\<open>int\<close>, a \<^verbatim>\<open>bool\<close>,
  a \<^verbatim>\<open>Decimal\<close> with an integral value and a string of digits are converted for an
  \<^verbatim>\<open>int\<close>; an \<^verbatim>\<open>int\<close> and a numeric string are converted exactly for a \<^verbatim>\<open>Decimal\<close>; the
  integers 0 and 1 are converted for a \<^verbatim>\<open>bool\<close>. \<^verbatim>\<open>Optional[T]\<close> admits \<^verbatim>\<open>None\<close> besides
  the values of \<^verbatim>\<open>T\<close>. The statements of this theory are about values given in the
  annotated type; the library knows further spellings (exponents, surrounding blanks,
  strings for \<^verbatim>\<open>bool\<close> and \<^verbatim>\<open>datetime\<close>) that are not modelled.
\<close>

fun coerce :: "annotation \<Rightarrow> pyval \<Rightarrow> pyval option" where
  "coerce TInt (PyInt n) = Some (PyInt n)"
| "coerce TInt (PyBool b) = Some (PyInt (if b then 1 else 0))"
| "coerce TInt (PyDecimal (Finite q)) =
     (if q = of_int \<lfloor>q\<rfloor> then Some (PyInt \<lfloor>q\<rfloor>) else None)"
| "coerce TInt (PyStr s) = map_option PyInt (parse_int s)"
| "coerce TStr (PyStr s) = Some (PyStr s)"
| "coerce TBool (PyBool b) = Some (PyBool b)"
| "coerce TBool (PyInt n) =
     (if n = 0 then Some (PyBool False) else if n = 1 then Some (PyBool True) else None)"
| "coerce TDecimal (PyDecimal d) = Some (PyDecimal d)"
| "coerce TDecimal (PyInt n) = Some (PyDecimal (Finite (of_int n)))"
| "coerce TDecimal (PyStr s) = map_option (\<lambda>q. PyDecimal (Finite q)) (parse_decimal s)"
| "coerce TDatetime (PyDatetime t) = Some (PyDatetime t)"
| "coerce (TList t) (PyList vs) = map_option PyList (those (map (coerce t) vs))"
| "coerce (TOptional t) PyNone = Some PyNone"
| "coerce (TOptional t) v = coerce t v"
| "coerce _ _ = None"

fun number_of :: "pyval \<Rightarrow> rat option" where
  "number_of (PyInt n) = Some (of_int n)"
| "number_of (PyDecimal (Finite q)) = Some q"
| "number_of _ = None"

fun not_finite :: "pyval \<Rightarrow> bool" where
  "not_finite (PyDecimal (Finite q)) = False"
| "not_finite (PyDecimal d) = True"
| "not_finite _ = False"

fun length_of :: "pyval \<Rightarrow> nat option" where
  "length_of (PyStr s) = Some (length s)"
| "length_of _ = None"

text \<open>
  A decimal that is not finite is refused, with or without declared bounds. The
  constraints of a descriptor apply to the value inside an \<^verbatim>\<open>Optional\<close>: \<^verbatim>\<open>None\<close> has
  neither a length nor a numeric value and passes every constraint.
\<close>

definition check_constraints :: "field_info \<Rightarrow> pyval \<Rightarrow> error_kind list" where
  "check_constraints f v =
     (if not_finite v then [FiniteNumber] else []) @
     (case (max_length f, length_of v) of
        (Some n, Some l) \<Rightarrow> if n < l then [StringTooLong n] else []
      | _ \<Rightarrow> []) @
     (case (ge f, number_of v) of
        (Some b, Some x) \<Rightarrow> if x < b then [GreaterThanEqual b] else []
      | _ \<Rightarrow> []) @
     (case (le f, number_of v) of
        (Some b, Some x) \<Rightarrow> if b < x then [LessThanEqual b] else []
      | _ \<Rightarrow> []) @
     (case (gt f, number_of v) of
        (Some b, Some x) \<Rightarrow> if x \<le> b then [GreaterThan b] else []
      | _ \<Rightarrow> [])"

text \<open>
  One attribute: an omitted keyword takes the declared default, which is not validated,
  or is reported missing when the descriptor has none; a given value is converted to the
  annotated type and checked against the constraints.
\<close>

definition validate_field ::
    "field_decl \<Rightarrow> (string \<rightharpoonup> pyval) \<Rightarrow> validation_error + pyval" where
  "validate_field d kwargs =
     (case d of (name, ty, f) \<Rightarrow>
        (case kwargs name of
           None \<Rightarrow>
             (case default f of
                Undefined \<Rightarrow> Inl [(name, Missing)]
              | Default v \<Rightarrow> Inr v)
         | Some v \<Rightarrow>
             (case coerce ty v of
                None \<Rightarrow> Inl [(name, WrongType ty)]
              | Some w \<Rightarrow>
                  (case check_constraints f w of
                     [] \<Rightarrow> Inr w
                   | es \<Rightarrow> Inl (map (Pair name) es)))))"

text \<open>
  All attributes are validated, in declaration order, and the errors of all of them are
  collected. Keywords that name no attribute are ignored.
\<close>

fun validate_fields ::
    "field_decl list \<Rightarrow> (string \<rightharpoonup> pyval) \<Rightarrow> validation_error \<times> (string \<times> pyval) list" where
  "validate_fields [] kwargs = ([], [])"
| "validate_fields (d # ds) kwargs =
     (case validate_fields ds kwargs of (es, vs) \<Rightarrow>
        (case validate_field d kwargs of
           Inl e \<Rightarrow> (e @ es, vs)
         | Inr v \<Rightarrow> (es, (fst d, v) # vs)))"

text \<open>
  Construction of a schema class: the instance (its attributes in declaration order) when
  no attribute is in error, a ValidationError carrying the collected errors otherwise.
\<close>

definition model_validate ::
    "field_decl list \<Rightarrow> (string \<rightharpoonup> pyval) \<Rightarrow> validation_error + (string \<times> pyval) list" where
  "model_validate decls kwargs =
     (case validate_fields decls kwargs of
        ([], vs) \<Rightarrow> Inr vs
      | (es, vs) \<Rightarrow> Inl es)"

text \<open>\<^verbatim>\<open>model_dump()\<close>: the attributes of an instance as a dictionary.\<close>

definition model_dump :: "(string \<times> pyval) list \<Rightarrow> (string \<rightharpoonup> pyval)" where
  "model_dump obj = map_of obj"

text \<open>
  Construction of a table class (\<^verbatim>\<open>table=True\<close>) validates nothing and raises no error:
  a given keyword is stored as it is, without conversion or check; an omitted one takes
  the declared default; an omitted attribute without default is left unset.
\<close>

fun sqlmodel_table_construct ::
    "field_decl list \<Rightarrow> (string \<rightharpoonup> pyval) \<Rightarrow> (string \<times> pyval) list" where
  "sqlmodel_table_construct [] kwargs = []"
| "sqlmodel_table_construct ((name, ty, f) # ds) kwargs =
     (case kwargs name of
        Some v \<Rightarrow> (name, v) # sqlmodel_table_construct ds kwargs
      | None \<Rightarrow>
          (case default f of
             Default v \<Rightarrow> (name, v) # sqlmodel_table_construct ds kwargs
           | Undefined \<Rightarrow> sqlmodel_table_construct ds kwargs))"

section \<open>The declarations of \<^verbatim>\<open>app/models.py\<close>\<close>

text \<open>
  \<^verbatim>\<open>class PlaybackSession(SQLModel, table=True)\<close>. \<^verbatim>\<open>last_played_at\<close> has
  \<^verbatim>\<open>default_factory=datetime.utcnow\<close>: the default is the reading \<open>now\<close> of the clock at
  construction. The \<^verbatim>\<open>Relationship\<close> attribute \<^verbatim>\<open>video\<close> is not a column and takes no
  part in construction. The source lines of the two attributes with a range elsewhere:
  \<^verbatim>\<open>volume_level: Decimal = Field(default=Decimal("100"), description="Volume level (0-100)")\<close>
  \<^verbatim>\<open>playback_speed: Decimal = Field(default=Decimal("1.0"), description="Playback speed multiplier")\<close>
\<close>

definition PlaybackSession_fields :: "int \<Rightarrow> field_decl list" where
  "PlaybackSession_fields now =
    [(''id'', TOptional TInt, Field\<lparr>default := Default PyNone\<rparr>),
     (''video_id'', TInt, Field),
     (''current_position'', TDecimal, Field\<lparr>default := Default (PyDecimal (Finite 0))\<rparr>),
     (''volume_level'', TDecimal, Field\<lparr>default := Default (PyDecimal (Finite 100))\<rparr>),
     (''playback_speed'', TDecimal, Field\<lparr>default := Default (PyDecimal (Finite 1))\<rparr>),
     (''is_muted'', TBool, Field\<lparr>default := Default (PyBool False)\<rparr>),
     (''is_fullscreen'', TBool, Field\<lparr>default := Default (PyBool False)\<rparr>),
     (''last_played_at'', TDatetime, Field\<lparr>default := Default (PyDatetime now)\<rparr>),
     (''total_watch_time'', TDecimal, Field\<lparr>default := Default (PyDecimal (Finite 0))\<rparr>),
     (''watch_count'', TInt, Field\<lparr>default := Default (PyInt 1)\<rparr>)]"

text \<open>\<^verbatim>\<open>class VideoCreate(SQLModel, table=False)\<close>\<close>

definition VideoCreate_fields :: "field_decl list" where
  "VideoCreate_fields =
    [(''title'', TStr, Field\<lparr>max_length := Some 255\<rparr>),
     (''description'', TStr, Field\<lparr>default := Default (PyStr []), max_length := Some 2000\<rparr>),
     (''file_path'', TStr, Field\<lparr>max_length := Some 500\<rparr>),
     (''file_size'', TInt, Field),
     (''duration'', TDecimal, Field\<lparr>default := Default (PyDecimal (Finite 0))\<rparr>),
     (''width'', TOptional TInt, Field\<lparr>default := Default PyNone\<rparr>),
     (''height'', TOptional TInt, Field\<lparr>default := Default PyNone\<rparr>),
     (''frame_rate'', TOptional TDecimal, Field\<lparr>default := Default PyNone\<rparr>),
     (''format'', TStr, Field\<lparr>max_length := Some 50\<rparr>),
     (''codec'', TOptional TStr, Field\<lparr>default := Default PyNone, max_length := Some 50\<rparr>),
     (''thumbnail_path'', TOptional TStr,
        Field\<lparr>default := Default PyNone, max_length := Some 500\<rparr>)]"

text \<open>\<^verbatim>\<open>class PlaylistCreate(SQLModel, table=False)\<close>\<close>

definition PlaylistCreate_fields :: "field_decl list" where
  "PlaylistCreate_fields =
    [(''name'', TStr, Field\<lparr>max_length := Some 200\<rparr>),
     (''description'', TStr, Field\<lparr>default := Default (PyStr []), max_length := Some 1000\<rparr>),
     (''is_favorite'', TBool, Field\<lparr>default := Default (PyBool False)\<rparr>)]"

text \<open>
  \<^verbatim>\<open>class PlaylistItemCreate(SQLModel, table=False)\<close>: three bare annotations, no
  descriptor and no default.
\<close>

definition PlaylistItemCreate_fields :: "field_decl list" where
  "PlaylistItemCreate_fields =
    [(''playlist_id'', TInt, Field),
     (''video_id'', TInt, Field),
     (''position'', TInt, Field)]"


text \<open>\<^verbatim>\<open>class VideoSearchParams(SQLModel, table=False)\<close>\<close>

definition VideoSearchParams_fields :: "field_decl list" where
  "VideoSearchParams_fields =
    [(''title'', TOptional TStr, Field\<lparr>default := Default PyNone\<rparr>),
     (''format'', TOptional TStr, Field\<lparr>default := Default PyNone\<rparr>),
     (''min_duration'', TOptional TDecimal, Field\<lparr>default := Default PyNone\<rparr>),
     (''max_duration'', TOptional TDecimal, Field\<lparr>default := Default PyNone\<rparr>),
     (''tags'', TOptional (TList TStr), Field\<lparr>default := Default PyNone\<rparr>),
     (''limit'', TInt, Field\<lparr>default := Default (PyInt 50), le := Some 1000\<rparr>),
     (''offset'', TInt, Field\<lparr>default := Default (PyInt 0), ge := Some 0\<rparr>)]"

text \<open>
  The constructors: for a schema class, \<^verbatim>\<open>C(**kwargs)\<close> validates the keyword arguments
  against the declarations of \<^verbatim>\<open>C\<close>; for the table class \<^verbatim>\<open>PlaybackSession\<close> it stores
  them unvalidated.
\<close>

definition PlaybackSession :: "int \<Rightarrow> (string \<rightharpoonup> pyval) \<Rightarrow> (string \<times> pyval) list" where
  "PlaybackSession now kwargs = sqlmodel_table_construct (PlaybackSession_fields now) kwargs"

definition VideoCreate ::
    "(string \<rightharpoonup> pyval) \<Rightarrow> validation_error + (string \<times> pyval) list" where
  "VideoCreate kwargs = model_validate VideoCreate_fields kwargs"

definition PlaylistCreate ::
    "(string \<rightharpoonup> pyval) \<Rightarrow> validation_error + (string \<times> pyval) list" where
  "PlaylistCreate kwargs = model_validate PlaylistCreate_fields kwargs"

definition PlaylistItemCreate ::
    "(string \<rightharpoonup> pyval) \<Rightarrow> validation_error + (string \<times> pyval) list" where
  "PlaylistItemCreate kwargs = model_validate PlaylistItemCreate_fields kwargs"


definition VideoSearchParams ::
    "(string \<rightharpoonup> pyval) \<Rightarrow> validation_error + (string \<times> pyval) list" where
  "VideoSearchParams kwargs = model_validate VideoSearchParams_fields kwargs"

section \<open>Properties of construction\<close>

lemma validate_field_Inl_nonempty: "validate_field d kw = Inl e \<Longrightarrow> e \<noteq> []"
  by (auto simp: validate_field_def split: prod.splits option.splits default_value.splits list.splits)

lemma validate_fields_errors:
  "fst (validate_fields ds kw) =
     concat (map (\<lambda>d. case validate_field d kw of Inl e \<Rightarrow> e | Inr v \<Rightarrow> []) ds)"
  by (induction ds) (auto split: prod.splits sum.splits)

lemma validate_fields_values:
  "\<forall>d \<in> set ds. \<not> isl (validate_field d kw) \<Longrightarrow>
   snd (validate_fields ds kw) = map (\<lambda>d. (fst d, projr (validate_field d kw))) ds"
  by (induction ds) (auto split: prod.splits sum.splits)

lemma model_validate_Inr_iff:
  "model_validate ds kw = Inr r \<longleftrightarrow>
     (\<forall>d \<in> set ds. \<not> isl (validate_field d kw)) \<and>
     r = map (\<lambda>d. (fst d, projr (validate_field d kw))) ds"
proof -
  have a: "fst (validate_fields ds kw) = [] \<longleftrightarrow> (\<forall>d \<in> set ds. \<not> isl (validate_field d kw))"
    by (auto simp: validate_fields_errors split: sum.splits dest: validate_field_Inl_nonempty)
      (metis sum.collapse(1) validate_field_Inl_nonempty sum.disc(1) sum.simps(5))
  show ?thesis
    using a validate_fields_values[of ds kw]
    by (cases "validate_fields ds kw") (auto simp: model_validate_def split: list.splits)
qed

lemma model_validate_Inl:
  assumes "d \<in> set ds" and "validate_field d kw = Inl e"
  shows "\<exists>es. model_validate ds kw = Inl es \<and> set e \<subseteq> set es"
proof -
  have "set e \<subseteq> set (fst (validate_fields ds kw))"
    using assms by (force simp: validate_fields_errors)
  moreover have "e \<noteq> []" using assms(2) by (rule validate_field_Inl_nonempty)
  ultimately show ?thesis
    by (cases "validate_fields ds kw") (auto simp: model_validate_def split: list.splits)
qed

lemma validate_field_other:
  "fst d \<noteq> k \<Longrightarrow> validate_field d (kw(k \<mapsto> v)) = validate_field d kw"
  by (cases d) (simp add: validate_field_def)


lemma map_of_fields_cong:
  "\<forall>d \<in> set ds. fst d = x \<longrightarrow> g d = h d \<Longrightarrow>
   map_of (map (\<lambda>d. (fst d, g d)) ds) x = map_of (map (\<lambda>d. (fst d, h d)) ds) x"
  by (induction ds) auto

lemma map_of_fields_mem:
  "distinct (map fst ds) \<Longrightarrow> d \<in> set ds \<Longrightarrow>
   map_of (map (\<lambda>d. (fst d, g d)) ds) (fst d) = Some (g d)"
  by (induction ds) (auto simp: rev_image_eqI)

lemma model_validate_update:
  assumes ok: "model_validate ds kw = Inr r"
    and dist: "distinct (map fst ds)"
    and mem: "(k, ty, f) \<in> set ds"
    and new: "validate_field (k, ty, f) (kw(k \<mapsto> v)) = Inr w"
  shows "\<exists>r'. model_validate ds (kw(k \<mapsto> v)) = Inr r' \<and>
               model_dump r' = (model_dump r)(k \<mapsto> w)"
proof -
  let ?kw = "kw(k \<mapsto> v)"
  let ?r = "map (\<lambda>d. (fst d, projr (validate_field d ?kw))) ds"
  have old: "\<forall>d \<in> set ds. \<not> isl (validate_field d kw)"
    and r: "r = map (\<lambda>d. (fst d, projr (validate_field d kw))) ds"
    using ok by (simp_all add: model_validate_Inr_iff)
  have same: "d = (k, ty, f)" if "d \<in> set ds" "fst d = k" for d
    using dist mem that by (metis eq_key_imp_eq_value prod.collapse)
  have "\<not> isl (validate_field d ?kw)" if "d \<in> set ds" for d
  proof (cases "fst d = k")
    case True
    then show ?thesis using same[OF that] new by simp
  next
    case False
    then show ?thesis using old that by (simp add: validate_field_other)
  qed
  then have 1: "model_validate ds ?kw = Inr ?r"
    by (simp add: model_validate_Inr_iff)
  have "map_of ?r x = ((map_of r)(k \<mapsto> w)) x" for x
  proof (cases "x = k")
    case True
    then show ?thesis
      using map_of_fields_mem[OF dist mem, of "\<lambda>d. projr (validate_field d ?kw)"] new
      by simp
  next
    case False
    then show ?thesis
      unfolding r using map_of_fields_cong[of ds x
          "\<lambda>d. projr (validate_field d ?kw)" "\<lambda>d. projr (validate_field d kw)"]
      by (simp add: validate_field_other)
  qed
  then have "model_dump ?r = (model_dump r)(k \<mapsto> w)"
    unfolding model_dump_def by (rule ext)
  with 1 show ?thesis by blast
qed

lemma coerce_numeric_strings:
  "coerce TDecimal (PyStr (str ''12.5'')) = Some (PyDecimal (Finite (25 / 2)))"
  "coerce TDecimal (PyStr (str ''-0.75'')) = Some (PyDecimal (Finite (- 3 / 4)))"
  "coerce TInt (PyStr (str ''1000'')) = Some (PyInt 1000)"
  "coerce TInt (PyStr (str ''12.5'')) = None"
  by (simp_all add: str_def parse_decimal_def parse_unsigned_decimal_def parse_int_def
      parse_nat_def)

lemmas construct_defs =
  model_validate_def validate_field_def check_constraints_def Field_def

subsection \<open>PlaybackSessionUpdate\<close>












subsection \<open>VideoSearchParams\<close>

lemma VideoSearchParams_distinct: "distinct (map fst VideoSearchParams_fields)"
  by (simp add: VideoSearchParams_fields_def)

lemma limit_decl:
  "(''limit'', TInt, Field\<lparr>default := Default (PyInt 50), le := Some 1000\<rparr>)
    \<in> set VideoSearchParams_fields"
  by (simp add: VideoSearchParams_fields_def)

lemma offset_decl:
  "(''offset'', TInt, Field\<lparr>default := Default (PyInt 0), ge := Some 0\<rparr>)
    \<in> set VideoSearchParams_fields"
  by (simp add: VideoSearchParams_fields_def)

lemma limit_above:
  "1000 < n \<Longrightarrow> \<exists>es. VideoSearchParams (kw(''limit'' \<mapsto> PyInt n)) = Inl es \<and>
      (''limit'', LessThanEqual 1000) \<in> set es"
  unfolding VideoSearchParams_def
  using model_validate_Inl[OF limit_decl,
      of "kw(''limit'' \<mapsto> PyInt n)" "[(''limit'', LessThanEqual 1000)]"]
  by (simp add: validate_field_def check_constraints_def Field_def)

lemma limit_upto:
  "n \<le> 1000 \<Longrightarrow> VideoSearchParams kw = Inr r \<Longrightarrow>
   \<exists>r'. VideoSearchParams (kw(''limit'' \<mapsto> PyInt n)) = Inr r' \<and>
        model_dump r' = (model_dump r)(''limit'' \<mapsto> PyInt n)"
  unfolding VideoSearchParams_def
  by (erule model_validate_update[OF _ VideoSearchParams_distinct limit_decl])
     (simp add: validate_field_def check_constraints_def Field_def)

lemma offset_below:
  "n < 0 \<Longrightarrow> \<exists>es. VideoSearchParams (kw(''offset'' \<mapsto> PyInt n)) = Inl es \<and>
      (''offset'', GreaterThanEqual 0) \<in> set es"
  unfolding VideoSearchParams_def
  using model_validate_Inl[OF offset_decl,
      of "kw(''offset'' \<mapsto> PyInt n)" "[(''offset'', GreaterThanEqual 0)]"]
  by (simp add: validate_field_def check_constraints_def Field_def)

lemma offset_from:
  "0 \<le> n \<Longrightarrow> VideoSearchParams kw = Inr r \<Longrightarrow>
   \<exists>r'. VideoSearchParams (kw(''offset'' \<mapsto> PyInt n)) = Inr r' \<and>
        model_dump r' = (model_dump r)(''offset'' \<mapsto> PyInt n)"
  unfolding VideoSearchParams_def
  by (erule model_validate_update[OF _ VideoSearchParams_distinct offset_decl])
     (simp add: validate_field_def check_constraints_def Field_def)

lemma model_validate_default:
  assumes ok: "model_validate ds kw = Inr r"
    and dist: "distinct (map fst ds)"
    and mem: "(k, ty, f) \<in> set ds"
    and dflt: "default f = Default v"
    and omitted: "kw k = None"
  shows "model_dump r k = Some v"
proof -
  have r: "r = map (\<lambda>d. (fst d, projr (validate_field d kw))) ds"
    using ok by (simp add: model_validate_Inr_iff)
  have "validate_field (k, ty, f) kw = Inr v"
    using dflt omitted by (simp add: validate_field_def)
  then show ?thesis
    using map_of_fields_mem[OF dist mem, of "\<lambda>d. projr (validate_field d kw)"]
    by (simp add: r model_dump_def)
qed

lemma limit_default:
  "kw ''limit'' = None \<Longrightarrow> VideoSearchParams kw = Inr r \<Longrightarrow>
   model_dump r ''limit'' = Some (PyInt 50)"
  unfolding VideoSearchParams_def
  by (erule model_validate_default[OF _ VideoSearchParams_distinct limit_decl])
     simp_all

lemma offset_default:
  "kw ''offset'' = None \<Longrightarrow> VideoSearchParams kw = Inr r \<Longrightarrow>
   model_dump r ''offset'' = Some (PyInt 0)"
  unfolding VideoSearchParams_def
  by (erule model_validate_default[OF _ VideoSearchParams_distinct offset_decl])
     simp_all

lemma VideoSearchParams_empty:
  "VideoSearchParams Map.empty =
     Inr [(''title'', PyNone), (''format'', PyNone), (''min_duration'', PyNone),
          (''max_duration'', PyNone), (''tags'', PyNone), (''limit'', PyInt 50),
          (''offset'', PyInt 0)]"
  by (simp add: VideoSearchParams_def VideoSearchParams_fields_def construct_defs)

text \<open>
  Claim C2. Constructing VideoSearchParams with \<open>limit\<close> 1001 is rejected and with
  \<open>limit\<close> 1000 is accepted; with \<open>offset\<close> -1 it is rejected and with \<open>offset\<close> 0 it is
  accepted (acceptance given that the other keywords are valid). When \<open>limit\<close> is omitted
  the instance has \<open>limit\<close> 50 and when \<open>offset\<close> is omitted it has \<open>offset\<close> 0.
\<close>

theorem VideoSearchParams_limit_offset:
  "(\<exists>es. VideoSearchParams (kw(''limit'' \<mapsto> PyInt 1001)) = Inl es \<and>
         (''limit'', LessThanEqual 1000) \<in> set es) \<and>
   (VideoSearchParams kw = Inr r \<longrightarrow>
      (\<exists>r'. VideoSearchParams (kw(''limit'' \<mapsto> PyInt 1000)) = Inr r' \<and>
            model_dump r' = (model_dump r)(''limit'' \<mapsto> PyInt 1000))) \<and>
   (\<exists>es. VideoSearchParams (kw(''offset'' \<mapsto> PyInt (- 1))) = Inl es \<and>
         (''offset'', GreaterThanEqual 0) \<in> set es) \<and>
   (VideoSearchParams kw = Inr r \<longrightarrow>
      (\<exists>r'. VideoSearchParams (kw(''offset'' \<mapsto> PyInt 0)) = Inr r' \<and>
            model_dump r' = (model_dump r)(''offset'' \<mapsto> PyInt 0))) \<and>
   (kw ''limit'' = None \<and> VideoSearchParams kw = Inr r \<longrightarrow>
      model_dump r ''limit'' = Some (PyInt 50)) \<and>
   (kw ''offset'' = None \<and> VideoSearchParams kw = Inr r \<longrightarrow>
      model_dump r ''offset'' = Some (PyInt 0))"
  using limit_above[of 1001 kw] limit_upto[of 1000 kw r]
    offset_below[of "- 1" kw] offset_from[of 0 kw r]
    limit_default[of kw r] offset_default[of kw r]
  by simp

theorem VideoSearchParams_limit_offset_witness:
  "(\<exists>r'. VideoSearchParams [''limit'' \<mapsto> PyInt 1000] = Inr r' \<and>
         model_dump r' ''limit'' = Some (PyInt 1000) \<and>
         model_dump r' ''offset'' = Some (PyInt 0)) \<and>
   (\<exists>r'. VideoSearchParams [''offset'' \<mapsto> PyInt 0] = Inr r' \<and>
         model_dump r' ''offset'' = Some (PyInt 0) \<and>
         model_dump r' ''limit'' = Some (PyInt 50)) \<and>
   (\<exists>r. VideoSearchParams Map.empty = Inr r \<and>
        model_dump r ''limit'' = Some (PyInt 50) \<and>
        model_dump r ''offset'' = Some (PyInt 0))"
proof -
  let ?r = "[(''title'', PyNone), (''format'', PyNone), (''min_duration'', PyNone),
             (''max_duration'', PyNone), (''tags'', PyNone), (''limit'', PyInt 50),
             (''offset'', PyInt 0)]"
  have e: "VideoSearchParams Map.empty = Inr ?r"
    by (rule VideoSearchParams_empty)
  have d: "model_dump ?r ''limit'' = Some (PyInt 50)" "model_dump ?r ''offset'' = Some (PyInt 0)"
    by (simp_all add: model_dump_def)
  show ?thesis
    using VideoSearchParams_limit_offset[of Map.empty ?r] e d by fastforce
qed

text \<open>
  Claim C10. VideoSearchParams puts no lower bound on \<open>limit\<close>: every integer up to 1000,
  zero and the negative ones included, is accepted as \<open>limit\<close> when the other keywords are
  valid, and is stored as given.
\<close>

theorem VideoSearchParams_limit_no_lower_bound:
  "n \<le> 1000 \<and> VideoSearchParams kw = Inr r \<longrightarrow>
     (\<exists>r'. VideoSearchParams (kw(''limit'' \<mapsto> PyInt n)) = Inr r' \<and>
           model_dump r' = (model_dump r)(''limit'' \<mapsto> PyInt n))"
  using limit_upto[of n kw r] by simp

theorem VideoSearchParams_limit_no_lower_bound_witness:
  "(\<exists>r'. VideoSearchParams [''limit'' \<mapsto> PyInt 0] = Inr r' \<and>
         model_dump r' ''limit'' = Some (PyInt 0)) \<and>
   (\<exists>r'. VideoSearchParams [''limit'' \<mapsto> PyInt (- 5)] = Inr r' \<and>
         model_dump r' ''limit'' = Some (PyInt (- 5)))"
  using VideoSearchParams_limit_no_lower_bound[of 0 Map.empty]
    VideoSearchParams_limit_no_lower_bound[of "- 5" Map.empty]
    VideoSearchParams_empty
  by fastforce

subsection \<open>VideoCreate\<close>

lemma model_validate_missing:
  assumes mem: "(k, ty, f) \<in> set ds"
    and dflt: "default f = Undefined"
    and omitted: "kw k = None"
  shows "\<exists>es. model_validate ds kw = Inl es \<and> (k, Missing) \<in> set es"
proof -
  have "validate_field (k, ty, f) kw = Inl [(k, Missing)]"
    using dflt omitted by (simp add: validate_field_def)
  from model_validate_Inl[OF mem this] show ?thesis by simp
qed

lemma VideoCreate_distinct: "distinct (map fst VideoCreate_fields)"
  by (simp add: VideoCreate_fields_def)

lemma title_decl:
  "(''title'', TStr, Field\<lparr>max_length := Some 255\<rparr>) \<in> set VideoCreate_fields"
  by (simp add: VideoCreate_fields_def)

lemma file_path_decl:
  "(''file_path'', TStr, Field\<lparr>max_length := Some 500\<rparr>) \<in> set VideoCreate_fields"
  by (simp add: VideoCreate_fields_def)

lemma file_size_decl: "(''file_size'', TInt, Field) \<in> set VideoCreate_fields"
  by (simp add: VideoCreate_fields_def)

lemma format_decl:
  "(''format'', TStr, Field\<lparr>max_length := Some 50\<rparr>) \<in> set VideoCreate_fields"
  by (simp add: VideoCreate_fields_def)

lemma duration_decl:
  "(''duration'', TDecimal, Field\<lparr>default := Default (PyDecimal (Finite 0))\<rparr>) \<in> set VideoCreate_fields"
  by (simp add: VideoCreate_fields_def)

lemma title_too_long:
  "255 < length s \<Longrightarrow> \<exists>es. VideoCreate (kw(''title'' \<mapsto> PyStr s)) = Inl es \<and>
      (''title'', StringTooLong 255) \<in> set es"
  unfolding VideoCreate_def
  using model_validate_Inl[OF title_decl,
      of "kw(''title'' \<mapsto> PyStr s)" "[(''title'', StringTooLong 255)]"]
  by (simp add: validate_field_def check_constraints_def Field_def)

lemma title_fits:
  "length s \<le> 255 \<Longrightarrow> VideoCreate kw = Inr r \<Longrightarrow>
   \<exists>r'. VideoCreate (kw(''title'' \<mapsto> PyStr s)) = Inr r' \<and>
        model_dump r' = (model_dump r)(''title'' \<mapsto> PyStr s)"
  unfolding VideoCreate_def
  by (erule model_validate_update[OF _ VideoCreate_distinct title_decl])
     (simp add: validate_field_def check_constraints_def Field_def)

lemma file_path_missing:
  "kw ''file_path'' = None \<Longrightarrow>
   \<exists>es. VideoCreate kw = Inl es \<and> (''file_path'', Missing) \<in> set es"
  unfolding VideoCreate_def
  by (rule model_validate_missing[OF file_path_decl]) (simp_all add: Field_def)

lemma file_size_missing:
  "kw ''file_size'' = None \<Longrightarrow>
   \<exists>es. VideoCreate kw = Inl es \<and> (''file_size'', Missing) \<in> set es"
  unfolding VideoCreate_def
  by (rule model_validate_missing[OF file_size_decl]) (simp_all add: Field_def)

lemma format_missing:
  "kw ''format'' = None \<Longrightarrow>
   \<exists>es. VideoCreate kw = Inl es \<and> (''format'', Missing) \<in> set es"
  unfolding VideoCreate_def
  by (rule model_validate_missing[OF format_decl]) (simp_all add: Field_def)

lemma file_path_fits:
  "length s \<le> 500 \<Longrightarrow> VideoCreate kw = Inr r \<Longrightarrow>
   \<exists>r'. VideoCreate (kw(''file_path'' \<mapsto> PyStr s)) = Inr r' \<and>
        model_dump r' = (model_dump r)(''file_path'' \<mapsto> PyStr s)"
  unfolding VideoCreate_def
  by (erule model_validate_update[OF _ VideoCreate_distinct file_path_decl])
     (simp add: validate_field_def check_constraints_def Field_def)

lemma duration_any:
  "VideoCreate kw = Inr r \<Longrightarrow>
   \<exists>r'. VideoCreate (kw(''duration'' \<mapsto> PyDecimal (Finite d))) = Inr r' \<and>
        model_dump r' = (model_dump r)(''duration'' \<mapsto> PyDecimal (Finite d))"
  unfolding VideoCreate_def
  by (erule model_validate_update[OF _ VideoCreate_distinct duration_decl])
     (simp add: validate_field_def check_constraints_def Field_def)

lemma duration_default:
  "kw ''duration'' = None \<Longrightarrow> VideoCreate kw = Inr r \<Longrightarrow>
   model_dump r ''duration'' = Some (PyDecimal (Finite 0))"
  unfolding VideoCreate_def
  by (erule model_validate_default[OF _ VideoCreate_distinct duration_decl])
     simp_all

text \<open>A valid set of keywords, used to instantiate the statements below.\<close>

lemma VideoCreate_intro:
  "VideoCreate
     [''title'' \<mapsto> PyStr (str ''Intro''), ''file_path'' \<mapsto> PyStr (str ''/videos/intro.mp4''),
      ''file_size'' \<mapsto> PyInt 1048576, ''format'' \<mapsto> PyStr (str ''mp4'')] =
   Inr [(''title'', PyStr (str ''Intro'')), (''description'', PyStr []),
        (''file_path'', PyStr (str ''/videos/intro.mp4'')), (''file_size'', PyInt 1048576),
        (''duration'', PyDecimal (Finite 0)), (''width'', PyNone), (''height'', PyNone),
        (''frame_rate'', PyNone), (''format'', PyStr (str ''mp4'')), (''codec'', PyNone),
        (''thumbnail_path'', PyNone)]"
  by (simp add: VideoCreate_def VideoCreate_fields_def construct_defs str_def)

text \<open>
  Claim C3. Constructing a VideoCreate with a \<open>title\<close> longer than 255 characters fails
  with a validation error on \<open>title\<close>, whatever the other keywords are; with a \<open>title\<close> of
  exactly 255 characters it succeeds when the other keywords are valid.
\<close>

theorem VideoCreate_title_length:
  "(255 < length s \<longrightarrow>
      (\<exists>es. VideoCreate (kw(''title'' \<mapsto> PyStr s)) = Inl es \<and>
            (''title'', StringTooLong 255) \<in> set es)) \<and>
   (length s = 255 \<and> VideoCreate kw = Inr r \<longrightarrow>
      (\<exists>r'. VideoCreate (kw(''title'' \<mapsto> PyStr s)) = Inr r' \<and>
            model_dump r' = (model_dump r)(''title'' \<mapsto> PyStr s)))"
  using title_too_long[of s kw] title_fits[of s kw r] by simp

theorem VideoCreate_title_length_witness:
  "(\<exists>es. VideoCreate
           [''file_path'' \<mapsto> PyStr (str ''/videos/intro.mp4''), ''file_size'' \<mapsto> PyInt 1048576,
            ''format'' \<mapsto> PyStr (str ''mp4''), ''title'' \<mapsto> PyStr (replicate 256 97)] = Inl es \<and>
         (''title'', StringTooLong 255) \<in> set es) \<and>
   (\<exists>r'. VideoCreate
           [''title'' \<mapsto> PyStr (str ''Intro''),
            ''file_path'' \<mapsto> PyStr (str ''/videos/intro.mp4''), ''file_size'' \<mapsto> PyInt 1048576,
            ''format'' \<mapsto> PyStr (str ''mp4''), ''title'' \<mapsto> PyStr (replicate 255 97)] = Inr r' \<and>
         model_dump r' ''title'' = Some (PyStr (replicate 255 97)))"
proof -
  have 1: "\<exists>es. VideoCreate
           [''file_path'' \<mapsto> PyStr (str ''/videos/intro.mp4''), ''file_size'' \<mapsto> PyInt 1048576,
            ''format'' \<mapsto> PyStr (str ''mp4''), ''title'' \<mapsto> PyStr (replicate 256 97)] = Inl es \<and>
         (''title'', StringTooLong 255) \<in> set es"
    using VideoCreate_title_length[of "replicate 256 97"
        "[''file_path'' \<mapsto> PyStr (str ''/videos/intro.mp4''), ''file_size'' \<mapsto> PyInt 1048576,
          ''format'' \<mapsto> PyStr (str ''mp4'')]"]
    by simp
  have 2: "\<exists>r'. VideoCreate
           [''title'' \<mapsto> PyStr (str ''Intro''),
            ''file_path'' \<mapsto> PyStr (str ''/videos/intro.mp4''), ''file_size'' \<mapsto> PyInt 1048576,
            ''format'' \<mapsto> PyStr (str ''mp4''), ''title'' \<mapsto> PyStr (replicate 255 97)] = Inr r' \<and>
         model_dump r' ''title'' = Some (PyStr (replicate 255 97))"
    using VideoCreate_title_length[of "replicate 255 97"
        "[''title'' \<mapsto> PyStr (str ''Intro''),
          ''file_path'' \<mapsto> PyStr (str ''/videos/intro.mp4''), ''file_size'' \<mapsto> PyInt 1048576,
          ''format'' \<mapsto> PyStr (str ''mp4'')]", THEN conjunct2]
      VideoCreate_intro
    by fastforce
  from 1 2 show ?thesis by blast
qed

text \<open>
  Claim C4, as amended. Constructing a VideoCreate requires the keywords \<open>file_path\<close>,
  \<open>file_size\<close> and \<open>format\<close> to be given: when one of them is omitted, construction is
  rejected with a required-field error on it. A \<open>file_path\<close> that is the empty string is
  accepted when the other keywords are valid: the declaration bounds its length from
  above only.
\<close>

theorem VideoCreate_required_fields:
  "(kw ''file_path'' = None \<longrightarrow>
      (\<exists>es. VideoCreate kw = Inl es \<and> (''file_path'', Missing) \<in> set es)) \<and>
   (kw ''file_size'' = None \<longrightarrow>
      (\<exists>es. VideoCreate kw = Inl es \<and> (''file_size'', Missing) \<in> set es)) \<and>
   (kw ''format'' = None \<longrightarrow>
      (\<exists>es. VideoCreate kw = Inl es \<and> (''format'', Missing) \<in> set es)) \<and>
   (VideoCreate kw = Inr r \<longrightarrow>
      (\<exists>r'. VideoCreate (kw(''file_path'' \<mapsto> PyStr [])) = Inr r' \<and>
            model_dump r' = (model_dump r)(''file_path'' \<mapsto> PyStr [])))"
  using file_path_missing[of kw] file_size_missing[of kw] format_missing[of kw]
    file_path_fits[of "[]" kw r]
  by simp

theorem VideoCreate_required_fields_witness:
  "(\<exists>es. VideoCreate [''title'' \<mapsto> PyStr (str ''Intro'')] = Inl es \<and>
         (''file_path'', Missing) \<in> set es \<and> (''file_size'', Missing) \<in> set es \<and>
         (''format'', Missing) \<in> set es) \<and>
   (\<exists>r'. VideoCreate
           [''title'' \<mapsto> PyStr (str ''Intro''),
            ''file_path'' \<mapsto> PyStr (str ''/videos/intro.mp4''), ''file_size'' \<mapsto> PyInt 1048576,
            ''format'' \<mapsto> PyStr (str ''mp4''), ''file_path'' \<mapsto> PyStr []] = Inr r' \<and>
         model_dump r' ''file_path'' = Some (PyStr []))"
proof -
  have 1: "\<exists>es. VideoCreate [''title'' \<mapsto> PyStr (str ''Intro'')] = Inl es \<and>
         (''file_path'', Missing) \<in> set es \<and> (''file_size'', Missing) \<in> set es \<and>
         (''format'', Missing) \<in> set es"
    using VideoCreate_required_fields[of "[''title'' \<mapsto> PyStr (str ''Intro'')]" "[]"]
    by auto
  have 2: "\<exists>r'. VideoCreate
           [''title'' \<mapsto> PyStr (str ''Intro''),
            ''file_path'' \<mapsto> PyStr (str ''/videos/intro.mp4''), ''file_size'' \<mapsto> PyInt 1048576,
            ''format'' \<mapsto> PyStr (str ''mp4''), ''file_path'' \<mapsto> PyStr []] = Inr r' \<and>
         model_dump r' ''file_path'' = Some (PyStr [])"
    using VideoCreate_required_fields[of
        "[''title'' \<mapsto> PyStr (str ''Intro''),
          ''file_path'' \<mapsto> PyStr (str ''/videos/intro.mp4''), ''file_size'' \<mapsto> PyInt 1048576,
          ''format'' \<mapsto> PyStr (str ''mp4'')]",
        THEN conjunct2, THEN conjunct2, THEN conjunct2]
      VideoCreate_intro
    by fastforce
  from 1 2 show ?thesis by blast
qed

text \<open>
  Claim C4 as written fails: a VideoCreate whose \<open>file_path\<close> is the empty string is
  constructed.
\<close>

theorem VideoCreate_empty_file_path_accepted:
  "VideoCreate
     [''title'' \<mapsto> PyStr (str ''Intro''), ''file_path'' \<mapsto> PyStr (str ''''),
      ''file_size'' \<mapsto> PyInt 1048576, ''format'' \<mapsto> PyStr (str ''mp4'')] =
   Inr [(''title'', PyStr (str ''Intro'')), (''description'', PyStr (str '''')),
        (''file_path'', PyStr (str '''')), (''file_size'', PyInt 1048576),
        (''duration'', PyDecimal (Finite 0)), (''width'', PyNone), (''height'', PyNone),
        (''frame_rate'', PyNone), (''format'', PyStr (str ''mp4'')), (''codec'', PyNone),
        (''thumbnail_path'', PyNone)]"
  by (simp add: VideoCreate_def VideoCreate_fields_def construct_defs str_def)

lemma duration_not_finite:
  "not_finite (PyDecimal d) \<Longrightarrow>
   \<exists>es. VideoCreate (kw(''duration'' \<mapsto> PyDecimal d)) = Inl es \<and>
        (''duration'', FiniteNumber) \<in> set es"
  unfolding VideoCreate_def
  using model_validate_Inl[OF duration_decl,
      of "kw(''duration'' \<mapsto> PyDecimal d)" "[(''duration'', FiniteNumber)]"]
  by (simp add: validate_field_def check_constraints_def Field_def)

text \<open>
  Claim C5 as written fails: a VideoCreate with the negative \<open>duration\<close> -1 is constructed
  and keeps that value.
\<close>

theorem VideoCreate_negative_duration_accepted:
  "VideoCreate
     [''title'' \<mapsto> PyStr (str ''Intro''), ''file_path'' \<mapsto> PyStr (str ''/videos/intro.mp4''),
      ''file_size'' \<mapsto> PyInt 1048576, ''format'' \<mapsto> PyStr (str ''mp4''),
      ''duration'' \<mapsto> PyDecimal (Finite (- 1))] =
   Inr [(''title'', PyStr (str ''Intro'')), (''description'', PyStr (str '''')),
        (''file_path'', PyStr (str ''/videos/intro.mp4'')), (''file_size'', PyInt 1048576),
        (''duration'', PyDecimal (Finite (- 1))), (''width'', PyNone), (''height'', PyNone),
        (''frame_rate'', PyNone), (''format'', PyStr (str ''mp4'')), (''codec'', PyNone),
        (''thumbnail_path'', PyNone)]"
  by (simp add: VideoCreate_def VideoCreate_fields_def construct_defs str_def)

text \<open>
  Claim C5, as amended. The \<open>duration\<close> of a VideoCreate must be a finite decimal and has
  no lower bound: every finite decimal, the negative ones included, is accepted and
  stored as given when the other keywords are valid; \<open>Infinity\<close>, \<open>-Infinity\<close> and \<open>NaN\<close> are
  rejected whatever the other keywords are; an omitted \<open>duration\<close> is 0.
\<close>

theorem VideoCreate_duration_finite_unbounded:
  "(VideoCreate kw = Inr r \<longrightarrow>
      (\<exists>r'. VideoCreate (kw(''duration'' \<mapsto> PyDecimal (Finite q))) = Inr r' \<and>
            model_dump r' = (model_dump r)(''duration'' \<mapsto> PyDecimal (Finite q)))) \<and>
   (\<exists>es. VideoCreate (kw(''duration'' \<mapsto> PyDecimal Infinity)) = Inl es \<and>
         (''duration'', FiniteNumber) \<in> set es) \<and>
   (\<exists>es. VideoCreate (kw(''duration'' \<mapsto> PyDecimal NegInfinity)) = Inl es \<and>
         (''duration'', FiniteNumber) \<in> set es) \<and>
   (\<exists>es. VideoCreate (kw(''duration'' \<mapsto> PyDecimal NaN)) = Inl es \<and>
         (''duration'', FiniteNumber) \<in> set es) \<and>
   (kw ''duration'' = None \<and> VideoCreate kw = Inr r \<longrightarrow>
      model_dump r ''duration'' = Some (PyDecimal (Finite 0)))"
  using duration_any[of kw r q] duration_default[of kw r]
    duration_not_finite[of Infinity kw] duration_not_finite[of NegInfinity kw]
    duration_not_finite[of NaN kw]
  by simp

theorem VideoCreate_duration_finite_unbounded_witness:
  "(\<exists>r'. VideoCreate
           [''title'' \<mapsto> PyStr (str ''Intro''),
            ''file_path'' \<mapsto> PyStr (str ''/videos/intro.mp4''), ''file_size'' \<mapsto> PyInt 1048576,
            ''format'' \<mapsto> PyStr (str ''mp4''), ''duration'' \<mapsto> PyDecimal (Finite (- 3 / 2))] =
           Inr r' \<and>
         model_dump r' ''duration'' = Some (PyDecimal (Finite (- 3 / 2)))) \<and>
   (\<exists>r. VideoCreate
           [''title'' \<mapsto> PyStr (str ''Intro''),
            ''file_path'' \<mapsto> PyStr (str ''/videos/intro.mp4''), ''file_size'' \<mapsto> PyInt 1048576,
            ''format'' \<mapsto> PyStr (str ''mp4'')] = Inr r \<and>
         model_dump r ''duration'' = Some (PyDecimal (Finite 0)))"
proof -
  let ?kw = "[''title'' \<mapsto> PyStr (str ''Intro''),
            ''file_path'' \<mapsto> PyStr (str ''/videos/intro.mp4''), ''file_size'' \<mapsto> PyInt 1048576,
            ''format'' \<mapsto> PyStr (str ''mp4'')]"
  obtain r where r: "VideoCreate ?kw = Inr r"
    using VideoCreate_intro by blast
  have none: "?kw ''duration'' = None" by simp
  from VideoCreate_duration_finite_unbounded[of ?kw r "- 3 / 2"] r none
  show ?thesis by fastforce
qed

subsection \<open>PlaylistCreate and PlaylistItemCreate\<close>

lemma playlist_id_decl: "(''playlist_id'', TInt, Field) \<in> set PlaylistItemCreate_fields"
  by (simp add: PlaylistItemCreate_fields_def)

lemma video_id_decl: "(''video_id'', TInt, Field) \<in> set PlaylistItemCreate_fields"
  by (simp add: PlaylistItemCreate_fields_def)

lemma position_decl: "(''position'', TInt, Field) \<in> set PlaylistItemCreate_fields"
  by (simp add: PlaylistItemCreate_fields_def)

lemma playlist_id_missing:
  "kw ''playlist_id'' = None \<Longrightarrow>
   \<exists>es. PlaylistItemCreate kw = Inl es \<and> (''playlist_id'', Missing) \<in> set es"
  unfolding PlaylistItemCreate_def
  by (rule model_validate_missing[OF playlist_id_decl]) (simp_all add: Field_def)

lemma video_id_missing:
  "kw ''video_id'' = None \<Longrightarrow>
   \<exists>es. PlaylistItemCreate kw = Inl es \<and> (''video_id'', Missing) \<in> set es"
  unfolding PlaylistItemCreate_def
  by (rule model_validate_missing[OF video_id_decl]) (simp_all add: Field_def)

lemma position_missing:
  "kw ''position'' = None \<Longrightarrow>
   \<exists>es. PlaylistItemCreate kw = Inl es \<and> (''position'', Missing) \<in> set es"
  unfolding PlaylistItemCreate_def
  by (rule model_validate_missing[OF position_decl]) (simp_all add: Field_def)

lemma PlaylistItemCreate_no_defaults:
  "map (\<lambda>(name, ty, f). (name, default f)) PlaylistItemCreate_fields =
     [(''playlist_id'', Undefined), (''video_id'', Undefined), (''position'', Undefined)]"
  by (simp add: PlaylistItemCreate_fields_def Field_def)

text \<open>
  Claim C8. Constructing a PlaylistItemCreate without \<open>position\<close> fails with a
  required-field validation error on \<open>position\<close>, whatever the other keywords are. The
  same holds for \<open>playlist_id\<close> and \<open>video_id\<close>: the three attributes are all the class
  declares, and none of them has a default.
\<close>

theorem PlaylistItemCreate_required:
  "(kw ''position'' = None \<longrightarrow>
      (\<exists>es. PlaylistItemCreate kw = Inl es \<and> (''position'', Missing) \<in> set es)) \<and>
   (kw ''playlist_id'' = None \<longrightarrow>
      (\<exists>es. PlaylistItemCreate kw = Inl es \<and> (''playlist_id'', Missing) \<in> set es)) \<and>
   (kw ''video_id'' = None \<longrightarrow>
      (\<exists>es. PlaylistItemCreate kw = Inl es \<and> (''video_id'', Missing) \<in> set es)) \<and>
   map (\<lambda>(name, ty, f). (name, default f)) PlaylistItemCreate_fields =
     [(''playlist_id'', Undefined), (''video_id'', Undefined), (''position'', Undefined)]"
  using position_missing[of kw] playlist_id_missing[of kw] video_id_missing[of kw]
    PlaylistItemCreate_no_defaults
  by simp

theorem PlaylistItemCreate_required_witness:
  "(\<exists>es. PlaylistItemCreate [''playlist_id'' \<mapsto> PyInt 3, ''video_id'' \<mapsto> PyInt 1] = Inl es \<and>
         (''position'', Missing) \<in> set es) \<and>
   (\<exists>es. PlaylistItemCreate [''video_id'' \<mapsto> PyInt 1, ''position'' \<mapsto> PyInt 0] = Inl es \<and>
         (''playlist_id'', Missing) \<in> set es) \<and>
   (\<exists>es. PlaylistItemCreate [''playlist_id'' \<mapsto> PyInt 3, ''position'' \<mapsto> PyInt 0] = Inl es \<and>
         (''video_id'', Missing) \<in> set es)"
  using PlaylistItemCreate_required[of "[''playlist_id'' \<mapsto> PyInt 3, ''video_id'' \<mapsto> PyInt 1]"]
    PlaylistItemCreate_required[of "[''video_id'' \<mapsto> PyInt 1, ''position'' \<mapsto> PyInt 0]"]
    PlaylistItemCreate_required[of "[''playlist_id'' \<mapsto> PyInt 3, ''position'' \<mapsto> PyInt 0]"]
  by simp

text \<open>
  Claim C9. Constructing a PlaylistCreate from the name "Favorites" alone succeeds, with
  \<open>is_favorite\<close> false and \<open>description\<close> the empty string. Constructing a
  PlaylistItemCreate with any \<open>playlist_id\<close>, \<open>video_id\<close> 1 and \<open>position\<close> 0 then succeeds:
  construction looks at the three integers only and checks no reference.
\<close>

theorem Favorites_scenario:
  "PlaylistCreate [''name'' \<mapsto> PyStr (str ''Favorites'')] =
     Inr [(''name'', PyStr (str ''Favorites'')), (''description'', PyStr (str '''')),
          (''is_favorite'', PyBool False)] \<and>
   PlaylistItemCreate
     [''playlist_id'' \<mapsto> PyInt pid, ''video_id'' \<mapsto> PyInt 1, ''position'' \<mapsto> PyInt 0] =
     Inr [(''playlist_id'', PyInt pid), (''video_id'', PyInt 1), (''position'', PyInt 0)]"
  by (simp add: PlaylistCreate_def PlaylistCreate_fields_def PlaylistItemCreate_def
      PlaylistItemCreate_fields_def construct_defs str_def)

subsection \<open>PlaybackSession\<close>

lemma table_construct_given:
  "(k, ty, f) \<in> set ds \<Longrightarrow> kw k = Some v \<Longrightarrow>
   map_of (sqlmodel_table_construct ds kw) k = Some v"
  by (induction ds kw rule: sqlmodel_table_construct.induct)
     (auto split: option.splits default_value.splits)

lemma table_construct_default:
  "distinct (map fst ds) \<Longrightarrow> (k, ty, f) \<in> set ds \<Longrightarrow> kw k = None \<Longrightarrow>
   default f = Default d \<Longrightarrow> map_of (sqlmodel_table_construct ds kw) k = Some d"
  by (induction ds kw rule: sqlmodel_table_construct.induct)
     (auto split: option.splits default_value.splits simp: rev_image_eqI)

lemma PlaybackSession_distinct: "distinct (map fst (PlaybackSession_fields now))"
  by (simp add: PlaybackSession_fields_def)

lemma session_volume_level_decl:
  "(''volume_level'', TDecimal, Field\<lparr>default := Default (PyDecimal (Finite 100))\<rparr>)
    \<in> set (PlaybackSession_fields now)"
  by (simp add: PlaybackSession_fields_def)

lemma session_playback_speed_decl:
  "(''playback_speed'', TDecimal, Field\<lparr>default := Default (PyDecimal (Finite 1))\<rparr>)
    \<in> set (PlaybackSession_fields now)"
  by (simp add: PlaybackSession_fields_def)

lemma session_volume_level_given:
  "model_dump (PlaybackSession now (kw(''volume_level'' \<mapsto> v))) ''volume_level'' = Some v"
  unfolding PlaybackSession_def model_dump_def
  by (rule table_construct_given[OF session_volume_level_decl]) simp

lemma session_playback_speed_given:
  "model_dump (PlaybackSession now (kw(''playback_speed'' \<mapsto> s))) ''playback_speed'' = Some s"
  unfolding PlaybackSession_def model_dump_def
  by (rule table_construct_given[OF session_playback_speed_decl]) simp

lemma session_volume_level_default:
  "kw ''volume_level'' = None \<Longrightarrow>
   model_dump (PlaybackSession now kw) ''volume_level'' = Some (PyDecimal (Finite 100))"
  unfolding PlaybackSession_def model_dump_def
  by (rule table_construct_default[OF PlaybackSession_distinct session_volume_level_decl])
     simp_all

lemma session_playback_speed_default:
  "kw ''playback_speed'' = None \<Longrightarrow>
   model_dump (PlaybackSession now kw) ''playback_speed'' = Some (PyDecimal (Finite 1))"
  unfolding PlaybackSession_def model_dump_def
  by (rule table_construct_default[OF PlaybackSession_distinct session_playback_speed_decl])
     simp_all

text \<open>
  Claim C6 as written fails: a PlaybackSession with \<open>volume_level\<close> 150 and
  \<open>playback_speed\<close> 0 is constructed and holds those values.
\<close>

theorem PlaybackSession_out_of_range_constructed:
  "PlaybackSession 1700000000
     [''video_id'' \<mapsto> PyInt 1, ''volume_level'' \<mapsto> PyDecimal (Finite 150),
      ''playback_speed'' \<mapsto> PyDecimal (Finite 0)] =
   [(''id'', PyNone), (''video_id'', PyInt 1), (''current_position'', PyDecimal (Finite 0)),
    (''volume_level'', PyDecimal (Finite 150)), (''playback_speed'', PyDecimal (Finite 0)),
    (''is_muted'', PyBool False), (''is_fullscreen'', PyBool False),
    (''last_played_at'', PyDatetime 1700000000), (''total_watch_time'', PyDecimal (Finite 0)),
    (''watch_count'', PyInt 1)]"
  by (simp add: PlaybackSession_def PlaybackSession_fields_def Field_def)

text \<open>
  Claim C6, as amended. A PlaybackSession holds the \<open>volume_level\<close> and the
  \<open>playback_speed\<close> it is constructed with, whatever they are: the entity declares no
  range for them and construction of the table class validates nothing, so instances
  with a \<open>volume_level\<close> outside 0 to 100 or a \<open>playback_speed\<close> that is not positive can be
  constructed. When the two attributes are omitted they are 100 and 1.0.
\<close>

theorem PlaybackSession_stores_given:
  "model_dump (PlaybackSession now (kw(''volume_level'' \<mapsto> v))) ''volume_level'' = Some v \<and>
   model_dump (PlaybackSession now (kw(''playback_speed'' \<mapsto> s))) ''playback_speed'' = Some s \<and>
   (kw ''volume_level'' = None \<longrightarrow>
      model_dump (PlaybackSession now kw) ''volume_level'' = Some (PyDecimal (Finite 100))) \<and>
   (kw ''playback_speed'' = None \<longrightarrow>
      model_dump (PlaybackSession now kw) ''playback_speed'' = Some (PyDecimal (Finite 1)))"
  using session_volume_level_given[of now kw v] session_playback_speed_given[of now kw s]
    session_volume_level_default[of kw now] session_playback_speed_default[of kw now]
  by simp

theorem PlaybackSession_stores_given_witness:
  "model_dump (PlaybackSession 1700000000
      [''video_id'' \<mapsto> PyInt 1, ''volume_level'' \<mapsto> PyDecimal (Finite (- 5))])
      ''volume_level'' = Some (PyDecimal (Finite (- 5))) \<and>
   model_dump (PlaybackSession 1700000000
      [''video_id'' \<mapsto> PyInt 1, ''playback_speed'' \<mapsto> PyDecimal (Finite (- 2))])
      ''playback_speed'' = Some (PyDecimal (Finite (- 2))) \<and>
   model_dump (PlaybackSession 1700000000 [''video_id'' \<mapsto> PyInt 1]) ''volume_level'' =
      Some (PyDecimal (Finite 100)) \<and>
   model_dump (PlaybackSession 1700000000 [''video_id'' \<mapsto> PyInt 1]) ''playback_speed'' =
      Some (PyDecimal (Finite 1))"
  using PlaybackSession_stores_given[of 1700000000 "[''video_id'' \<mapsto> PyInt 1]"
      "PyDecimal (Finite (- 5))" "PyDecimal (Finite (- 2))"]
  by simp

end
